theory Spec2Isabelle
  imports Complex_Main "HOL-Library.Sublist" "HOL-Library.Multiset"
begin

section \<open>Data model\<close>

text \<open>
  A completion entry is \<open>{date, completed}\<close>. The source keeps \<open>date\<close> as the
  canonical calendar-date text \<open>YYYY-MM-DD\<close> that it cuts from
  \<open>toISOString()\<close>; such a text is represented here by its day number (days since
  the epoch, UTC), so that \<open>a.date === b.date\<close> is equality of day numbers and
  \<open>new Date(a.date) - new Date(b.date)\<close> has the sign of their difference.
\<close>

record entry =
  date :: int
  completed :: bool

record streak =
  currentStreak :: nat
  longestStreak :: nat

section \<open>Progress calculator: streaks\<close>

text \<open>
  \<open>[...completionHistory].sort((a, b) => new Date(b.date) - new Date(a.date))\<close>:
  the array sort is stable, newest first.
\<close>

definition sortNewestFirst :: "entry list \<Rightarrow> entry list" where
  "sortNewestFirst h = sort_key (\<lambda>e. - date e) h"

text \<open>
  The first loop of \<open>calculateStreak\<close>, with its index \<open>i\<close> and the running
  \<open>currentStreak\<close>; a \<open>break\<close> returns the running value.
\<close>

fun currentLoop :: "entry list \<Rightarrow> nat \<Rightarrow> nat \<Rightarrow> nat" where
  "currentLoop [] i cs = cs"
| "currentLoop (e # es) i cs =
     (if completed e then
        (let cs1 = (if i = 0 then cs + 1 else cs) in
         if i = 0 then currentLoop es (i + 1) 1
         else if cs1 = 0 then cs1
         else currentLoop es (i + 1) cs1)
      else if i = 0 then 0
      else currentLoop es (i + 1) cs)"

text \<open>The second loop: \<open>tempStreak\<close> and \<open>longestStreak\<close> over the reversed array.\<close>

fun longestLoop :: "entry list \<Rightarrow> nat \<Rightarrow> nat \<Rightarrow> nat" where
  "longestLoop [] temp longest = longest"
| "longestLoop (e # es) temp longest =
     (if completed e then longestLoop es (temp + 1) (max longest (temp + 1))
      else longestLoop es 0 longest)"

text \<open>\<open>None\<close> is an argument that is not an array.\<close>

definition calculateStreak :: "entry list option \<Rightarrow> streak" where
  "calculateStreak completionHistory =
     (case completionHistory of
        None \<Rightarrow> \<lparr>currentStreak = 0, longestStreak = 0\<rparr>
      | Some h \<Rightarrow>
          if length h = 0 then \<lparr>currentStreak = 0, longestStreak = 0\<rparr>
          else
            let sortedHistory = sortNewestFirst h
            in \<lparr>currentStreak = currentLoop sortedHistory 0 0,
                longestStreak = longestLoop (rev sortedHistory) 0 0\<rparr>)"


section \<open>JavaScript numbers\<close>









section \<open>Progress calculator: percentages and scores\<close>



text \<open>
  Clock readings are milliseconds since the epoch; an entry of day number \<open>d\<close> parses
  to the instant \<open>d * 86400000\<close>.
\<close>

definition msPerDay :: int where
  "msPerDay = 1000 * 60 * 60 * 24"





section \<open>Habits and their validation\<close>

text \<open>
  A stored habit. \<open>createdAt\<close> and \<open>lastUpdated\<close> are instants (milliseconds
  since the epoch, standing for the ISO text the store holds); \<open>lastUpdated\<close> is
  absent until the first update. The counters are integers, so that a negative one can
  be written down and rejected.
\<close>

record habit =
  habit_id :: string
  name :: string
  frequency :: string
  targetTime :: "string option"
  createdAt :: int
  completedDays :: int
  totalDays :: int
  completionHistory :: "entry list"
  isCompleted :: bool
  lastUpdated :: "int option"


record storedData =
  habits :: "habit list"
  dataLastUpdated :: "int option"
  version :: string

definition DEFAULT_HABITS :: "habit list" where
  "DEFAULT_HABITS = []"

definition DEFAULT_VERSION :: string where
  "DEFAULT_VERSION = ''1.0.0''"

definition FREQUENCY_OPTIONS :: "string list" where
  "FREQUENCY_OPTIONS = [''daily'', ''weekly'']"

text \<open>\<open>String.prototype.trim\<close>, on the ASCII white space.\<close>

definition isWhiteSpace :: "char \<Rightarrow> bool" where
  "isWhiteSpace c = (c \<in> set [CHR '' '', CHR 0x09, CHR 0x0A, CHR 0x0B, CHR 0x0C, CHR 0x0D])"

definition trim :: "string \<Rightarrow> string" where
  "trim s = rev (dropWhile isWhiteSpace (rev (dropWhile isWhiteSpace s)))"

datatype validationError =
    NameRequired
  | FrequencyInvalid
  | CompletedDaysInvalid
  | TotalDaysInvalid
  | HabitAtIndex nat "validationError list"
  | LastUpdatedInvalid
  | VersionInvalid

record validation =
  isValid :: bool
  errors :: "validationError list"

text \<open>
  \<open>validateHabit\<close>. Its checks of \<open>typeof\<close> (a string target time, numeric
  counters, an array history, a boolean flag) hold by the types of the record; what is
  left of them is written out.
\<close>

definition validateHabit :: "habit \<Rightarrow> validation" where
  "validateHabit h =
     (let errs =
            (if name h = [] \<or> length (trim (name h)) = 0 then [NameRequired] else [])
          @ (if frequency h = [] \<or> frequency h \<notin> set FREQUENCY_OPTIONS
             then [FrequencyInvalid] else [])
          @ (if completedDays h < 0 then [CompletedDaysInvalid] else [])
          @ (if totalDays h < 0 then [TotalDaysInvalid] else [])
      in \<lparr>isValid = (length errs = 0), errors = errs\<rparr>)"

definition validateStoredData :: "storedData \<Rightarrow> validation" where
  "validateStoredData data =
     (let errs =
            concat (map (\<lambda>(index, h).
                           let habitValidation = validateHabit h
                           in if \<not> isValid habitValidation
                              then [HabitAtIndex index (errors habitValidation)] else [])
                        (enumerate 0 (habits data)))
          @ (if dataLastUpdated data = None then [LastUpdatedInvalid] else [])
          @ (if version data = [] then [VersionInvalid] else [])
      in \<lparr>isValid = (length errs = 0), errors = errs\<rparr>)"

section \<open>Habit store\<close>

text \<open>
  The durable store, as far as the habit envelope goes: the item under the key
  \<open>@habits\<close> (absent, or an envelope) and whether \<open>setItem\<close> resolves. Reading
  resolves, as the store contract has it. Every operation reads the clock once.
\<close>

record storage =
  habitsItem :: "storedData option"
  writable :: bool

definition getStorageData :: "storage \<Rightarrow> storedData \<Rightarrow> storedData" where
  "getStorageData st defaultValue =
     (case habitsItem st of None \<Rightarrow> defaultValue | Some jsonValue \<Rightarrow> jsonValue)"

definition setStorageData :: "storedData \<Rightarrow> storage \<Rightarrow> bool \<times> storage" where
  "setStorageData v st =
     (if writable st then (True, st\<lparr>habitsItem := Some v\<rparr>) else (False, st))"

definition getHabits :: "int \<Rightarrow> storage \<Rightarrow> habit list" where
  "getHabits now st =
     (let data = getStorageData st
                   \<lparr>habits = DEFAULT_HABITS, dataLastUpdated = Some now, version = DEFAULT_VERSION\<rparr>;
          v = validateStoredData data
      in if \<not> isValid v then DEFAULT_HABITS else habits data)"

definition saveHabits :: "int \<Rightarrow> habit list \<Rightarrow> storage \<Rightarrow> bool \<times> storage" where
  "saveHabits now hs st =
     (let data = \<lparr>habits = hs, dataLastUpdated = Some now, version = DEFAULT_VERSION\<rparr>;
          v = validateStoredData data
      in if \<not> isValid v then (False, st) else setStorageData data st)"



fun findIndex :: "('a \<Rightarrow> bool) \<Rightarrow> 'a list \<Rightarrow> nat option" where
  "findIndex P [] = None"
| "findIndex P (x # xs) = (if P x then Some 0 else map_option Suc (findIndex P xs))"

text \<open>The calendar date of an instant, \<open>toISOString().split('T')[0]\<close>, as a day number.\<close>

definition todayOf :: "int \<Rightarrow> int" where
  "todayOf now = now div msPerDay"

definition daysSinceCreation :: "int \<Rightarrow> habit \<Rightarrow> int" where
  "daysSinceCreation now h = (now - createdAt h) div msPerDay + 1"

text \<open>
  The history of \<open>updateHabitCompletion\<close>: today's entry overwritten where
  \<open>findIndex\<close> finds one, pushed otherwise, and the array sorted by date (the sort
  is stable).
\<close>

definition updateHistory :: "int \<Rightarrow> bool \<Rightarrow> entry list \<Rightarrow> entry list" where
  "updateHistory today isCompl history =
     (let placed =
            (case findIndex (\<lambda>e. date e = today) history of
               Some existingEntryIndex \<Rightarrow>
                 history[existingEntryIndex := \<lparr>date = today, completed = isCompl\<rparr>]
             | None \<Rightarrow> history @ [\<lparr>date = today, completed = isCompl\<rparr>])
      in sort_key date placed)"

text \<open>The \<open>updatedHabit\<close> that \<open>updateHabitCompletion\<close> builds from the habit it found.\<close>

definition updatedHabitOf :: "int \<Rightarrow> bool \<Rightarrow> habit \<Rightarrow> habit" where
  "updatedHabitOf now isCompl h =
     (let today = todayOf now;
          updatedHistory = updateHistory today isCompl (completionHistory h);
          completedCount = int (length (filter completed updatedHistory));
          total = int (length updatedHistory);
          actualTotalDays = max total (daysSinceCreation now h)
      in h\<lparr>isCompleted := isCompl,
            completedDays := completedCount,
            totalDays := actualTotalDays,
            completionHistory := updatedHistory,
            lastUpdated := Some now\<rparr>)"

definition updateHabitCompletion :: "int \<Rightarrow> string \<Rightarrow> bool \<Rightarrow> storage \<Rightarrow> bool \<times> storage" where
  "updateHabitCompletion now habitId isCompl st =
     (let hs = getHabits now st
      in case findIndex (\<lambda>h. habit_id h = habitId) hs of
           None \<Rightarrow> (False, st)
         | Some habitIndex \<Rightarrow>
             let updatedHabit = updatedHabitOf now isCompl (hs ! habitIndex);
                 updatedHabits = hs[habitIndex := updatedHabit]
             in saveHabits now updatedHabits st)"




section \<open>Achievement catalog and evaluator\<close>

record userStats =
  totalHabits :: int
  totalCompletions :: int
  statsLongestStreak :: nat
  statsCurrentStreak :: nat
  overallCompletionRate :: int
  perfectWeeks :: nat
  earlyCompletions :: int
  lateCompletions :: int

text \<open>A catalog entry (the \<open>icon\<close>, an emoji, is left out).\<close>

record achievement =
  ach_id :: string
  title :: string
  description :: string
  category :: string
  condition :: "userStats \<Rightarrow> bool"

text \<open>\<open>Object.values(ACHIEVEMENTS)\<close>, in the order the object literal lists its keys.\<close>

definition ACHIEVEMENTS :: "achievement list" where
  "ACHIEVEMENTS =
     [\<lparr>ach_id = ''first_steps'', title = ''First Steps'',
       description = ''Complete your first habit'', category = ''milestone'',
       condition = (\<lambda>us. totalCompletions us \<ge> 1)\<rparr>,
      \<lparr>ach_id = ''week_warrior'', title = ''Week Warrior'',
       description = ''Maintain a 7-day streak'', category = ''streak'',
       condition = (\<lambda>us. statsLongestStreak us \<ge> 7)\<rparr>,
      \<lparr>ach_id = ''consistency_champion'', title = ''Consistency Champion'',
       description = ''Achieve 80% completion rate'', category = ''performance'',
       condition = (\<lambda>us. overallCompletionRate us \<ge> 80)\<rparr>,
      \<lparr>ach_id = ''early_bird'', title = ''Early Bird'',
       description = ''Complete 10 habits before 9 AM'', category = ''timing'',
       condition = (\<lambda>us. earlyCompletions us \<ge> 10)\<rparr>,
      \<lparr>ach_id = ''month_master'', title = ''Month Master'',
       description = ''Maintain a 30-day streak'', category = ''streak'',
       condition = (\<lambda>us. statsLongestStreak us \<ge> 30)\<rparr>,
      \<lparr>ach_id = ''perfectionist'', title = ''Perfectionist'',
       description = ''100% completion for 7 days'', category = ''performance'',
       condition = (\<lambda>us. perfectWeeks us \<ge> 1)\<rparr>,
      \<lparr>ach_id = ''habit_collector'', title = ''Habit Collector'',
       description = ''Create 5 different habits'', category = ''milestone'',
       condition = (\<lambda>us. totalHabits us \<ge> 5)\<rparr>,
      \<lparr>ach_id = ''streak_legend'', title = ''Streak Legend'',
       description = ''Maintain a 100-day streak'', category = ''streak'',
       condition = (\<lambda>us. statsLongestStreak us \<ge> 100)\<rparr>,
      \<lparr>ach_id = ''dedication_master'', title = ''Dedication Master'',
       description = ''Complete 100 total habits'', category = ''milestone'',
       condition = (\<lambda>us. totalCompletions us \<ge> 100)\<rparr>,
      \<lparr>ach_id = ''night_owl'', title = ''Night Owl'',
       description = ''Complete 10 habits after 8 PM'', category = ''timing'',
       condition = (\<lambda>us. lateCompletions us \<ge> 10)\<rparr>]"

text \<open>
  \<open>parseInt\<close> without a radix: leading white space, a sign, a \<open>0x\<close> prefix, then
  the longest run of digits; \<open>None\<close> is \<open>NaN\<close>.
\<close>

definition digitOf :: "nat \<Rightarrow> char \<Rightarrow> nat option" where
  "digitOf radix c =
     (let n = (of_char c :: nat);
          d = (if 48 \<le> n \<and> n \<le> 57 then Some (n - 48)
               else if 97 \<le> n \<and> n \<le> 122 then Some (n - 87)
               else if 65 \<le> n \<and> n \<le> 90 then Some (n - 55)
               else None)
      in case d of None \<Rightarrow> None | Some v \<Rightarrow> if v < radix then Some v else None)"

definition parseInt :: "string \<Rightarrow> int option" where
  "parseInt str =
     (let s0 = dropWhile isWhiteSpace str;
          (neg, s1) = (case s0 of
                         [] \<Rightarrow> (False, s0)
                       | c # r \<Rightarrow> if c = CHR ''-'' then (True, r)
                                  else if c = CHR ''+'' then (False, r) else (False, s0));
          (radix, s2) = (case s1 of
                           a # b # r \<Rightarrow>
                             if a = CHR ''0'' \<and> (b = CHR ''x'' \<or> b = CHR ''X'') then (16, r)
                             else (10, s1)
                         | _ \<Rightarrow> (10, s1));
          z = takeWhile (\<lambda>c. digitOf radix c \<noteq> None) s2;
          number = foldl (\<lambda>acc c. case digitOf radix c of
                                     Some v \<Rightarrow> acc * radix + v | None \<Rightarrow> acc) 0 z
      in if z = [] then None
         else Some (if neg then - int number else int number))"

record statsAcc =
  accCompletions :: int
  accLongest :: nat
  accCurrent :: nat
  accTotalDays :: int
  accPerfectWeeks :: nat
  accEarly :: int
  accLate :: int

text \<open>The body of the \<open>forEach\<close> of \<open>calculateUserStats\<close>.\<close>

definition statsStep :: "habit \<Rightarrow> statsAcc \<Rightarrow> statsAcc" where
  "statsStep h acc =
     (let streakData = calculateStreak (Some (completionHistory h));
          history = completionHistory h;
          perfect = (length history \<ge> 7 \<and> list_all completed (drop (length history - 7) history));
          hour = (case targetTime h of
                    None \<Rightarrow> None
                  | Some t \<Rightarrow> if t = [] then None
                              else parseInt (takeWhile (\<lambda>c. c \<noteq> CHR '':'') t));
          timed = (case targetTime h of None \<Rightarrow> False | Some t \<Rightarrow> t \<noteq> []);
          early = (timed \<and> (case hour of None \<Rightarrow> False | Some n \<Rightarrow> n < 9));
          late = (timed \<and> \<not> early \<and> (case hour of None \<Rightarrow> False | Some n \<Rightarrow> n \<ge> 20))
      in \<lparr>accCompletions = accCompletions acc + completedDays h,
          accLongest = max (accLongest acc) (longestStreak streakData),
          accCurrent = max (accCurrent acc) (currentStreak streakData),
          accTotalDays = accTotalDays acc + totalDays h,
          accPerfectWeeks = (if perfect then accPerfectWeeks acc + 1 else accPerfectWeeks acc),
          accEarly = (if early then accEarly acc + completedDays h else accEarly acc),
          accLate = (if late then accLate acc + completedDays h else accLate acc)\<rparr>)"

definition calculateUserStats :: "habit list \<Rightarrow> userStats" where
  "calculateUserStats hs =
     (if length hs = 0 then
        \<lparr>totalHabits = 0, totalCompletions = 0, statsLongestStreak = 0, statsCurrentStreak = 0,
         overallCompletionRate = 0, perfectWeeks = 0, earlyCompletions = 0, lateCompletions = 0\<rparr>
      else
        let acc = fold statsStep hs
                    \<lparr>accCompletions = 0, accLongest = 0, accCurrent = 0, accTotalDays = 0,
                     accPerfectWeeks = 0, accEarly = 0, accLate = 0\<rparr>;
            rate = (if accTotalDays acc > 0
                    then \<lfloor>(of_int (accCompletions acc) / of_int (accTotalDays acc)) * (100 :: rat)
                           + 1 / 2\<rfloor>
                    else 0)
        in \<lparr>totalHabits = int (length hs),
            totalCompletions = accCompletions acc,
            statsLongestStreak = accLongest acc,
            statsCurrentStreak = accCurrent acc,
            overallCompletionRate = rate,
            perfectWeeks = accPerfectWeeks acc,
            earlyCompletions = accEarly acc,
            lateCompletions = accLate acc\<rparr>)"

record achievementCheck =
  newAchievements :: "achievement list"
  allUnlocked :: "string list"
  checkedStats :: userStats

text \<open>The body of the \<open>forEach\<close> of \<open>checkAchievements\<close>, pushing onto both arrays.\<close>

definition checkStep ::
  "userStats \<Rightarrow> string list \<Rightarrow> achievement \<Rightarrow> achievement list \<times> string list
     \<Rightarrow> achievement list \<times> string list" where
  "checkStep us currentAchievements a acc =
     (case acc of (new, unlocked) \<Rightarrow>
        if condition a us then
          (if ach_id a \<notin> set currentAchievements then new @ [a] else new,
           unlocked @ [ach_id a])
        else (new, unlocked))"

definition checkAchievements :: "habit list \<Rightarrow> string list \<Rightarrow> achievementCheck" where
  "checkAchievements hs currentAchievements =
     (let us = calculateUserStats hs;
          (new, unlocked) = fold (checkStep us currentAchievements) ACHIEVEMENTS ([], [])
      in \<lparr>newAchievements = new, allUnlocked = unlocked, checkedStats = us\<rparr>)"


section \<open>Data synchronizer: integrity validation and repair\<close>

text \<open>The \<open>data\<close> payloads of the issues that \<open>validateDataIntegrity\<close> reports.\<close>

datatype issueData =
    IdList "string list"
  | MissingIdData nat string
  | MissingNameData nat string
  | FrequencyData nat string string
  | ProgressData nat string int int
  | MismatchData nat string int int

record issue =
  issueType :: string
  severity :: string
  issueData :: issueData

record integritySummary =
  summaryTotalHabits :: nat
  criticalIssues :: nat
  highIssues :: nat
  mediumIssues :: nat
  lowIssues :: nat

record integrityResult =
  integrityValid :: bool
  issues :: "issue list"
  summary :: integritySummary

text \<open>\<open>ids.filter((id, index) => ids.indexOf(id) !== index)\<close>\<close>

definition duplicateIdsOf :: "string list \<Rightarrow> string list" where
  "duplicateIdsOf ids =
     map snd (filter (\<lambda>(index, i). findIndex (\<lambda>x. x = i) ids \<noteq> Some index) (enumerate 0 ids))"

definition requiredFieldIssues :: "nat \<Rightarrow> habit \<Rightarrow> issue list" where
  "requiredFieldIssues index h =
       (if habit_id h = [] then
          [\<lparr>issueType = ''missing_id'', severity = ''critical'',
            issueData = MissingIdData index (name h)\<rparr>] else [])
     @ (if name h = [] \<or> trim (name h) = [] then
          [\<lparr>issueType = ''missing_name'', severity = ''high'',
            issueData = MissingNameData index (habit_id h)\<rparr>] else [])
     @ (if frequency h = [] \<or> frequency h \<notin> set [''daily'', ''weekly''] then
          [\<lparr>issueType = ''invalid_frequency'', severity = ''medium'',
            issueData = FrequencyData index (habit_id h) (frequency h)\<rparr>] else [])"

definition consistencyIssues :: "nat \<Rightarrow> habit \<Rightarrow> issue list" where
  "consistencyIssues index h =
       (if completedDays h > totalDays h then
          [\<lparr>issueType = ''inconsistent_progress'', severity = ''medium'',
            issueData = ProgressData index (habit_id h) (completedDays h) (totalDays h)\<rparr>] else [])
     @ (let historyCompletions = int (length (filter completed (completionHistory h)))
        in if \<bar>historyCompletions - completedDays h\<bar> > 1 then
             [\<lparr>issueType = ''history_mismatch'', severity = ''low'',
               issueData = MismatchData index (habit_id h) historyCompletions (completedDays h)\<rparr>]
           else [])"

text \<open>
  \<open>validateDataIntegrity\<close>. Its \<open>catch\<close> is for a habit that is not an object or
  a name that is not a string, which the record type has not.
\<close>

definition validateDataIntegrity :: "habit list \<Rightarrow> integrityResult" where
  "validateDataIntegrity hs =
     (let ids = map habit_id hs;
          duplicateIds = duplicateIdsOf ids;
          found =
              (if length duplicateIds > 0 then
                 [\<lparr>issueType = ''duplicate_ids'', severity = ''high'',
                   issueData = IdList duplicateIds\<rparr>] else [])
            @ concat (map (\<lambda>(index, h). requiredFieldIssues index h) (enumerate 0 hs))
            @ concat (map (\<lambda>(index, h). consistencyIssues index h) (enumerate 0 hs))
      in \<lparr>integrityValid = (length found = 0),
          issues = found,
          summary =
            \<lparr>summaryTotalHabits = length hs,
             criticalIssues = length (filter (\<lambda>i. severity i = ''critical'') found),
             highIssues = length (filter (\<lambda>i. severity i = ''high'') found),
             mediumIssues = length (filter (\<lambda>i. severity i = ''medium'') found),
             lowIssues = length (filter (\<lambda>i. severity i = ''low'') found)\<rparr>\<rparr>)"

text \<open>
  The \<open>map\<close> of the \<open>duplicate_ids\<close> case, with its index; \<open>gen k\<close> is the text
  that the \<open>k\<close>-th call of \<open>generateUUID()\<close> draws, and the count of calls is
  returned with the array.
\<close>

fun regenerateIds ::
  "(nat \<Rightarrow> string) \<Rightarrow> string list \<Rightarrow> habit list \<Rightarrow> nat \<Rightarrow> nat \<Rightarrow> habit list \<times> nat" where
  "regenerateIds gen ds [] index k = ([], k)"
| "regenerateIds gen ds (h # hs) index k =
     (if habit_id h \<in> set ds \<and> index > 0 then
        (case regenerateIds gen ds hs (index + 1) (k + 1) of
           (rest, k') \<Rightarrow> (h\<lparr>habit_id := gen k\<rparr> # rest, k'))
      else
        (case regenerateIds gen ds hs (index + 1) k of
           (rest, k') \<Rightarrow> (h # rest, k')))"

text \<open>\<open>issue.data.index\<close>, \<open>None\<close> where the payload has no such property.\<close>

fun dataIndex :: "issueData \<Rightarrow> nat option" where
  "dataIndex (IdList ds) = None"
| "dataIndex (MissingIdData i n) = Some i"
| "dataIndex (MissingNameData i n) = Some i"
| "dataIndex (FrequencyData i n f) = Some i"
| "dataIndex (ProgressData i n c t) = Some i"
| "dataIndex (MismatchData i n c r) = Some i"

text \<open>
  The loop of \<open>fixDataIntegrity\<close> over the issues; \<open>None\<close> is an error thrown on
  the way (\<open>issue.data.includes\<close> on a payload that is not a list).
\<close>

fun fixLoop :: "(nat \<Rightarrow> string) \<Rightarrow> issue list \<Rightarrow> habit list \<Rightarrow> nat \<Rightarrow> habit list option" where
  "fixLoop gen [] fixedHabits k = Some fixedHabits"
| "fixLoop gen (i # rest) fixedHabits k =
     (if issueType i = ''duplicate_ids'' then
        (case issueData i of
           IdList ds \<Rightarrow>
             (case regenerateIds gen ds fixedHabits 0 k of
                (fixed', k') \<Rightarrow> fixLoop gen rest fixed' k')
         | _ \<Rightarrow> if fixedHabits = [] then fixLoop gen rest fixedHabits k else None)
      else if issueType i = ''missing_id'' then
        (case dataIndex (issueData i) of
           None \<Rightarrow> fixLoop gen rest fixedHabits k
         | Some n \<Rightarrow>
             if n < length fixedHabits
             then fixLoop gen rest (fixedHabits[n := (fixedHabits ! n)\<lparr>habit_id := gen k\<rparr>]) (k + 1)
             else fixLoop gen rest fixedHabits k)
      else if issueType i = ''invalid_frequency'' then
        (case dataIndex (issueData i) of
           None \<Rightarrow> fixLoop gen rest fixedHabits k
         | Some n \<Rightarrow>
             if n < length fixedHabits
             then fixLoop gen rest (fixedHabits[n := (fixedHabits ! n)\<lparr>frequency := ''daily''\<rparr>]) k
             else fixLoop gen rest fixedHabits k)
      else if issueType i = ''inconsistent_progress'' then
        (case dataIndex (issueData i) of
           None \<Rightarrow> fixLoop gen rest fixedHabits k
         | Some n \<Rightarrow>
             if n < length fixedHabits
             then fixLoop gen rest
                    (fixedHabits[n := (fixedHabits ! n)
                       \<lparr>completedDays :=
                          int (length (filter completed (completionHistory (fixedHabits ! n))))\<rparr>]) k
             else fixLoop gen rest fixedHabits k)
      else fixLoop gen rest fixedHabits k)"

definition fixDataIntegrity :: "(nat \<Rightarrow> string) \<Rightarrow> habit list \<Rightarrow> issue list \<Rightarrow> habit list" where
  "fixDataIntegrity gen hs found =
     (case fixLoop gen found hs 0 of Some fixedHabits \<Rightarrow> fixedHabits | None \<Rightarrow> hs)"


section \<open>Notions of the specification\<close>

text \<open>
  The chronologically ordered log that the second loop of \<open>calculateStreak\<close> walks:
  \<open>sortedHistory.reverse()\<close>.
\<close>

definition chronological :: "entry list \<Rightarrow> entry list" where
  "chronological h = rev (sortNewestFirst h)"

text \<open>
  The specification's current streak: the count of consecutive most-recent entries,
  starting from the newest, that are completed.
\<close>

definition consecutiveNewestCompleted :: "entry list \<Rightarrow> nat" where
  "consecutiveNewestCompleted h = length (takeWhile completed (sortNewestFirst h))"

text \<open>Example 2 of the specification: ten consecutive days.\<close>

definition example2History :: "entry list" where
  "example2History =
     [\<lparr>date = 1, completed = True\<rparr>, \<lparr>date = 2, completed = True\<rparr>,
      \<lparr>date = 3, completed = False\<rparr>, \<lparr>date = 4, completed = True\<rparr>,
      \<lparr>date = 5, completed = True\<rparr>, \<lparr>date = 6, completed = True\<rparr>,
      \<lparr>date = 7, completed = True\<rparr>, \<lparr>date = 8, completed = True\<rparr>,
      \<lparr>date = 9, completed = False\<rparr>, \<lparr>date = 10, completed = True\<rparr>]"


text \<open>
  The mock habit of the repository's tests: the counters of Example 1 (7 of 10) and the
  history of Example 2.
\<close>

definition exampleHabit :: habit where
  "exampleHabit =
     \<lparr>habit_id = ''test-habit-1'', name = ''Test Habit'', frequency = ''daily'',
      targetTime = None, createdAt = 0, completedDays = 7, totalDays = 10,
      completionHistory = example2History, isCompleted = True, lastUpdated = None\<rparr>"


definition exampleStorage :: storage where
  "exampleStorage =
     \<lparr>habitsItem = Some \<lparr>habits = [exampleHabit], dataLastUpdated = Some 0, version = ''1.0.0''\<rparr>,
      writable = True\<rparr>"



text \<open>A habit as \<open>addHabit\<close> creates it, valid but for the id it is given.\<close>

definition plainHabit :: "string \<Rightarrow> habit" where
  "plainHabit i =
     \<lparr>habit_id = i, name = ''Habit'', frequency = ''daily'', targetTime = None, createdAt = 0,
      completedDays = 0, totalDays = 0, completionHistory = [], isCompleted = False,
      lastUpdated = None\<rparr>"

section \<open>Properties of the streak calculation\<close>

lemma currentLoop_later: "0 < i \<Longrightarrow> 0 < cs \<Longrightarrow> currentLoop es i cs = cs"
  by (induction es arbitrary: i) (auto simp: Let_def)

lemma currentLoop_start:
  "currentLoop xs 0 0 = (case xs of [] \<Rightarrow> 0 | e # es \<Rightarrow> if completed e then 1 else 0)"
  by (cases xs) (auto simp: currentLoop_later)

lemma sortNewestFirst_head:
  assumes "sortNewestFirst h = e # es"
  shows "e \<in> set h \<and> (\<forall>x\<in>set h. date x \<le> date e)"
proof -
  have s: "sorted (map (\<lambda>e. - date e) (sortNewestFirst h))"
    by (simp add: sortNewestFirst_def)
  have m: "set (sortNewestFirst h) = set h"
    by (simp add: sortNewestFirst_def)
  from m assms have "e \<in> set h" by auto
  moreover from s assms have "\<forall>x\<in>set es. date x \<le> date e" by auto
  ultimately show ?thesis using m assms by auto
qed

lemma longestLoop_upper:
  "t \<le> l \<Longrightarrow>
   l \<le> longestLoop xs t l \<and>
   (\<forall>r. prefix r xs \<and> list_all completed r \<longrightarrow> t + length r \<le> longestLoop xs t l) \<and>
   (\<forall>r. sublist r xs \<and> list_all completed r \<longrightarrow> length r \<le> longestLoop xs t l)"
proof (induction xs arbitrary: t l)
  case Nil
  then show ?case by simp
next
  case (Cons e es)
  show ?case
  proof (cases "completed e")
    case True
    have ih: "max l (t + 1) \<le> longestLoop es (t + 1) (max l (t + 1)) \<and>
      (\<forall>r. prefix r es \<and> list_all completed r \<longrightarrow> (t + 1) + length r \<le> longestLoop es (t + 1) (max l (t + 1))) \<and>
      (\<forall>r. sublist r es \<and> list_all completed r \<longrightarrow> length r \<le> longestLoop es (t + 1) (max l (t + 1)))"
      by (rule Cons.IH) simp
    have p: "\<forall>r. prefix r (e # es) \<and> list_all completed r \<longrightarrow> t + length r \<le> longestLoop (e # es) t l"
    proof (intro allI impI)
      fix r assume a: "prefix r (e # es) \<and> list_all completed r"
      show "t + length r \<le> longestLoop (e # es) t l"
      proof (cases r)
        case Nil
        then show ?thesis using ih True by simp
      next
        case (Cons a r')
        with a have "prefix r' es \<and> list_all completed r'" by simp
        with ih have "(t + 1) + length r' \<le> longestLoop es (t + 1) (max l (t + 1))" by blast
        then show ?thesis using True Cons by simp
      qed
    qed
    have s: "\<forall>r. sublist r (e # es) \<and> list_all completed r \<longrightarrow> length r \<le> longestLoop (e # es) t l"
    proof (intro allI impI)
      fix r assume a: "sublist r (e # es) \<and> list_all completed r"
      then consider "prefix r (e # es)" | "sublist r es" by (auto simp: sublist_Cons_right)
      then show "length r \<le> longestLoop (e # es) t l"
      proof cases
        case 1
        with a p have "t + length r \<le> longestLoop (e # es) t l" by blast
        then show ?thesis by simp
      next
        case 2
        with a ih True show ?thesis by simp
      qed
    qed
    from ih True have "l \<le> longestLoop (e # es) t l" by simp
    with p s show ?thesis by blast
  next
    case False
    have ih: "l \<le> longestLoop es 0 l \<and>
      (\<forall>r. prefix r es \<and> list_all completed r \<longrightarrow> 0 + length r \<le> longestLoop es 0 l) \<and>
      (\<forall>r. sublist r es \<and> list_all completed r \<longrightarrow> length r \<le> longestLoop es 0 l)"
      by (rule Cons.IH) simp
    have p: "\<forall>r. prefix r (e # es) \<and> list_all completed r \<longrightarrow> t + length r \<le> longestLoop (e # es) t l"
    proof (intro allI impI)
      fix r assume a: "prefix r (e # es) \<and> list_all completed r"
      with False have "r = []" by (cases r) auto
      then show "t + length r \<le> longestLoop (e # es) t l"
        using ih False Cons.prems by simp
    qed
    have s: "\<forall>r. sublist r (e # es) \<and> list_all completed r \<longrightarrow> length r \<le> longestLoop (e # es) t l"
    proof (intro allI impI)
      fix r assume a: "sublist r (e # es) \<and> list_all completed r"
      then consider "prefix r (e # es)" | "sublist r es" by (auto simp: sublist_Cons_right)
      then show "length r \<le> longestLoop (e # es) t l"
      proof cases
        case 1
        with a p have "t + length r \<le> longestLoop (e # es) t l" by blast
        then show ?thesis by simp
      next
        case 2
        with a ih False show ?thesis by simp
      qed
    qed
    from ih False have "l \<le> longestLoop (e # es) t l" by simp
    with p s show ?thesis by blast
  qed
qed

lemma longestLoop_attained:
  "longestLoop xs t l = l \<or>
   (\<exists>r. prefix r xs \<and> list_all completed r \<and> longestLoop xs t l = t + length r) \<or>
   (\<exists>r. sublist r xs \<and> list_all completed r \<and> longestLoop xs t l = length r)"
proof (induction xs arbitrary: t l)
  case Nil
  then show ?case by simp
next
  case (Cons e es)
  show ?case
  proof (cases "completed e")
    case True
    from Cons.IH [of "t + 1" "max l (t + 1)"]
    consider "longestLoop es (t + 1) (max l (t + 1)) = max l (t + 1)"
      | r where "prefix r es" "list_all completed r" "longestLoop es (t + 1) (max l (t + 1)) = t + 1 + length r"
      | r where "sublist r es" "list_all completed r" "longestLoop es (t + 1) (max l (t + 1)) = length r"
      by blast
    then show ?thesis
    proof cases
      case 1
      show ?thesis
      proof (cases "t + 1 \<le> l")
        case True
        with 1 \<open>completed e\<close> show ?thesis by (simp add: max_def)
      next
        case False
        with 1 \<open>completed e\<close> have "prefix [e] (e # es) \<and> list_all completed [e] \<and> longestLoop (e # es) t l = t + length [e]"
          by (simp add: max_def)
        then show ?thesis by blast
      qed
    next
      case 2
      with True have "prefix (e # r) (e # es) \<and> list_all completed (e # r) \<and> longestLoop (e # es) t l = t + length (e # r)"
        by simp
      then show ?thesis by blast
    next
      case 3
      with True have "sublist r (e # es) \<and> list_all completed r \<and> longestLoop (e # es) t l = length r"
        by (simp add: sublist_Cons_right)
      then show ?thesis by blast
    qed
  next
    case False
    from Cons.IH [of 0 l]
    consider "longestLoop es 0 l = l"
      | r where "prefix r es" "list_all completed r" "longestLoop es 0 l = 0 + length r"
      | r where "sublist r es" "list_all completed r" "longestLoop es 0 l = length r"
      by blast
    then show ?thesis
    proof cases
      case 1
      with False show ?thesis by simp
    next
      case 2
      with False have "sublist r (e # es) \<and> list_all completed r \<and> longestLoop (e # es) t l = length r"
        by (simp add: sublist_Cons_right)
      then show ?thesis by blast
    next
      case 3
      with False have "sublist r (e # es) \<and> list_all completed r \<and> longestLoop (e # es) t l = length r"
        by (simp add: sublist_Cons_right)
      then show ?thesis by blast
    qed
  qed
qed

lemma chronological_sorted: "sorted (map date (chronological h))"
proof -
  have "sorted (map (\<lambda>e. - date e) (sortNewestFirst h))"
    by (simp add: sortNewestFirst_def)
  then show ?thesis
    by (simp add: chronological_def sorted_map sorted_wrt_rev rev_map)
qed

lemma chronological_mset: "mset (chronological h) = mset h"
  by (simp add: chronological_def sortNewestFirst_def)

lemma longestStreak_loop: "longestStreak (calculateStreak (Some h)) = longestLoop (chronological h) 0 0"
  by (cases h) (simp_all add: calculateStreak_def chronological_def sortNewestFirst_def Let_def)

lemma currentStreak_loop: "currentStreak (calculateStreak (Some h)) = currentLoop (sortNewestFirst h) 0 0"
  by (cases h) (simp_all add: calculateStreak_def sortNewestFirst_def Let_def)

text \<open>
  Counterexample to C2 as stated: both entries of a two-day history are completed, so the
  count of consecutive completed entries from the newest is 2, yet \<open>currentStreak\<close>
  is not 2.
\<close>

theorem C2_counterexample:
  "consecutiveNewestCompleted [\<lparr>date = 1, completed = True\<rparr>, \<lparr>date = 2, completed = True\<rparr>] = 2
   \<and> currentStreak (calculateStreak (Some [\<lparr>date = 1, completed = True\<rparr>, \<lparr>date = 2, completed = True\<rparr>])) \<noteq> 2"
  by (simp add: consecutiveNewestCompleted_def calculateStreak_def sortNewestFirst_def)

text \<open>
  C2, amended: \<open>currentStreak\<close> is 1 when the newest entry (the head of the history
  sorted descending by date, an entry of the history whose date no other exceeds) is
  completed, and 0 otherwise: 0 for an empty history and for a newest entry that is not
  completed. The loop never counts past the first entry.
\<close>

theorem C2_currentStreak_newest_only:
  "currentStreak (calculateStreak (Some h)) =
     (case sortNewestFirst h of [] \<Rightarrow> 0 | e # es \<Rightarrow> if completed e then 1 else 0)
   \<and> (\<forall>e es. sortNewestFirst h = e # es \<longrightarrow> e \<in> set h \<and> (\<forall>x\<in>set h. date x \<le> date e))"
  using sortNewestFirst_head [of h] by (simp add: currentStreak_loop currentLoop_start)

theorem C2_currentStreak_newest_only_witness:
  "sortNewestFirst [\<lparr>date = 1, completed = True\<rparr>, \<lparr>date = 2, completed = True\<rparr>]
     = [\<lparr>date = 2, completed = True\<rparr>, \<lparr>date = 1, completed = True\<rparr>]
   \<and> currentStreak (calculateStreak (Some [\<lparr>date = 1, completed = True\<rparr>, \<lparr>date = 2, completed = True\<rparr>])) = 1
   \<and> \<lparr>date = 2, completed = True\<rparr> \<in> set [\<lparr>date = 1, completed = True\<rparr>, \<lparr>date = 2, completed = True\<rparr>]"
  using C2_currentStreak_newest_only [of "[\<lparr>date = 1, completed = True\<rparr>, \<lparr>date = 2, completed = True\<rparr>]"]
  by (simp add: sortNewestFirst_def)

lemma example2_streak:
  "calculateStreak (Some example2History) = \<lparr>currentStreak = 1, longestStreak = 5\<rparr>"
  by code_simp

lemma example2_chronological: "chronological example2History = example2History"
  by code_simp

lemma longestLoop_run:
  "\<exists>r. sublist r xs \<and> list_all completed r \<and> length r = longestLoop xs 0 0"
proof -
  from longestLoop_attained [of xs 0 0] show ?thesis
  proof (elim disjE exE conjE)
    assume "longestLoop xs 0 0 = 0"
    then show ?thesis by (intro exI [of _ "[]"]) simp
  next
    fix r assume "prefix r xs" "list_all completed r" "longestLoop xs 0 0 = 0 + length r"
    then show ?thesis by (intro exI [of _ r]) (simp add: prefix_imp_sublist)
  next
    fix r assume "sublist r xs" "list_all completed r" "longestLoop xs 0 0 = length r"
    then show ?thesis by (intro exI [of _ r]) simp
  qed
qed

lemma longestStreak_attained:
  "\<exists>run. sublist run (chronological h) \<and> list_all completed run
         \<and> length run = longestStreak (calculateStreak (Some h))"
  unfolding longestStreak_loop by (rule longestLoop_run)

lemma longestStreak_upper:
  "sublist run (chronological h) \<Longrightarrow> list_all completed run
     \<Longrightarrow> length run \<le> longestStreak (calculateStreak (Some h))"
  using longestLoop_upper [of 0 0 "chronological h"] by (simp add: longestStreak_loop)

text \<open>
  C6: \<open>longestStreak\<close> is the maximum run length of consecutive completed entries in
  the chronologically sorted log. The log walked is a rearrangement of the history,
  sorted ascending by date; a run is a block of adjacent entries of it, all completed
  (adjacency of the entries present, no date gap inferred); some run has the length
  \<open>longestStreak\<close> and no run is longer. For the ten-day history of Example 2 the
  result is \<open>longestStreak = 5\<close> and \<open>currentStreak = 1\<close>.
\<close>

theorem C6_longestStreak_max_run:
  "sorted (map date (chronological h)) \<and> mset (chronological h) = mset h
   \<and> (\<exists>run. sublist run (chronological h) \<and> list_all completed run
              \<and> length run = longestStreak (calculateStreak (Some h)))
   \<and> (\<forall>run. sublist run (chronological h) \<and> list_all completed run
              \<longrightarrow> length run \<le> longestStreak (calculateStreak (Some h)))
   \<and> longestStreak (calculateStreak (Some example2History)) = 5
   \<and> currentStreak (calculateStreak (Some example2History)) = 1"
proof (intro conjI)
  show "sorted (map date (chronological h))" by (rule chronological_sorted)
  show "mset (chronological h) = mset h" by (rule chronological_mset)
  show "\<exists>run. sublist run (chronological h) \<and> list_all completed run
              \<and> length run = longestStreak (calculateStreak (Some h))"
    by (rule longestStreak_attained)
  show "\<forall>run. sublist run (chronological h) \<and> list_all completed run
              \<longrightarrow> length run \<le> longestStreak (calculateStreak (Some h))"
    using longestStreak_upper by blast
  show "longestStreak (calculateStreak (Some example2History)) = 5"
    by (simp add: example2_streak)
  show "currentStreak (calculateStreak (Some example2History)) = 1"
    by (simp add: example2_streak)
qed

theorem C6_longestStreak_max_run_witness:
  "sublist [\<lparr>date = 4, completed = True\<rparr>, \<lparr>date = 5, completed = True\<rparr>] (chronological example2History)
   \<and> list_all completed [\<lparr>date = 4, completed = True\<rparr>, \<lparr>date = 5, completed = True\<rparr>]
   \<and> length [\<lparr>date = 4, completed = True\<rparr>, \<lparr>date = 5, completed = True\<rparr>]
       \<le> longestStreak (calculateStreak (Some example2History))"
proof -
  have s: "sublist [\<lparr>date = 4, completed = True\<rparr>, \<lparr>date = 5, completed = True\<rparr>] (chronological example2History)"
    by (subst example2_chronological) (simp add: example2History_def sublist_Cons_right)
  have a: "list_all completed [\<lparr>date = 4, completed = True\<rparr>, \<lparr>date = 5, completed = True\<rparr>]"
    by simp
  have "length [\<lparr>date = 4, completed = True\<rparr>, \<lparr>date = 5, completed = True\<rparr>]
       \<le> longestStreak (calculateStreak (Some example2History))"
    using C6_longestStreak_max_run [of example2History] s a by blast
  with s a show ?thesis by blast
qed


section \<open>Properties of the completion percentage\<close>








section \<open>Safe defaults of the progress calculator\<close>










section \<open>Properties of the habit store\<close>

lemma validateHabit_iff:
  "isValid (validateHabit h) \<longleftrightarrow>
     name h \<noteq> [] \<and> trim (name h) \<noteq> [] \<and> frequency h \<in> {''daily'', ''weekly''}
     \<and> 0 \<le> completedDays h \<and> 0 \<le> totalDays h"
  by (auto simp: validateHabit_def Let_def FREQUENCY_OPTIONS_def)

lemma habit_errors_Nil:
  "concat (map (\<lambda>(index, h). if \<not> isValid (validateHabit h)
                               then [HabitAtIndex index (errors (validateHabit h))] else [])
               (enumerate n hs)) = []
   \<longleftrightarrow> (\<forall>h\<in>set hs. isValid (validateHabit h))"
  by (induction hs arbitrary: n) auto

lemma validateStoredData_iff:
  "isValid (validateStoredData d) \<longleftrightarrow>
     (\<forall>h\<in>set (habits d). isValid (validateHabit h)) \<and> dataLastUpdated d \<noteq> None \<and> version d \<noteq> []"
  unfolding validateStoredData_def Let_def
  using habit_errors_Nil [of 0 "habits d"] by auto

lemma envelope_valid:
  "isValid (validateStoredData \<lparr>habits = hs, dataLastUpdated = Some now, version = DEFAULT_VERSION\<rparr>)
     \<longleftrightarrow> (\<forall>h\<in>set hs. isValid (validateHabit h))"
  by (simp add: validateStoredData_iff DEFAULT_VERSION_def)

lemma getHabits_cases:
  "getHabits now st =
     (case habitsItem st of
        None \<Rightarrow> []
      | Some d \<Rightarrow> if isValid (validateStoredData d) then habits d else [])"
  by (simp add: getHabits_def getStorageData_def Let_def DEFAULT_HABITS_def envelope_valid
           split: option.splits)

lemma getHabits_valid: "h \<in> set (getHabits now st) \<Longrightarrow> isValid (validateHabit h)"
  by (auto simp: getHabits_cases validateStoredData_iff split: option.splits if_splits)


lemma saveHabits_cases:
  "saveHabits now hs st =
     (if (\<forall>h\<in>set hs. isValid (validateHabit h)) \<and> writable st
      then (True, st\<lparr>habitsItem := Some \<lparr>habits = hs, dataLastUpdated = Some now,
                                          version = DEFAULT_VERSION\<rparr>\<rparr>)
      else (False, st))"
  by (simp add: saveHabits_def Let_def envelope_valid setStorageData_def)

lemma findIndex_Some:
  "findIndex P xs = Some i \<Longrightarrow> i < length xs \<and> P (xs ! i) \<and> (\<forall>j<i. \<not> P (xs ! j))"
proof (induction xs arbitrary: i)
  case Nil
  then show ?case by simp
next
  case (Cons x xs)
  show ?case
  proof (cases "P x")
    case True
    with Cons.prems show ?thesis by simp
  next
    case False
    with Cons.prems obtain k where k: "findIndex P xs = Some k" "i = Suc k" by auto
    from Cons.IH [OF k(1)] False k(2) show ?thesis
      by (auto simp: less_Suc_eq_0_disj)
  qed
qed









section \<open>Properties of the completion toggle\<close>







lemma updatedHabitOf_valid:
  "isValid (validateHabit h) \<Longrightarrow> isValid (validateHabit (updatedHabitOf now target h))"
  by (simp add: validateHabit_iff updatedHabitOf_def Let_def)

lemma updatedHabitOf_fields:
  "habit_id (updatedHabitOf now target h) = habit_id h"
  "name (updatedHabitOf now target h) = name h"
  "frequency (updatedHabitOf now target h) = frequency h"
  "targetTime (updatedHabitOf now target h) = targetTime h"
  "createdAt (updatedHabitOf now target h) = createdAt h"
  "isCompleted (updatedHabitOf now target h) = target"
  "completionHistory (updatedHabitOf now target h) = updateHistory (todayOf now) target (completionHistory h)"
  "completedDays (updatedHabitOf now target h)
     = int (length (filter completed (completionHistory (updatedHabitOf now target h))))"
  "totalDays (updatedHabitOf now target h)
     = max (int (length (completionHistory (updatedHabitOf now target h)))) (daysSinceCreation now h)"
  by (simp_all add: updatedHabitOf_def Let_def)

lemma updateHabitCompletion_found:
  assumes "findIndex (\<lambda>h. habit_id h = hid) (getHabits now st) = Some i"
  shows "updateHabitCompletion now hid target st =
           (if writable st
            then (True, st\<lparr>habitsItem :=
                    Some \<lparr>habits = (getHabits now st)[i := updatedHabitOf now target (getHabits now st ! i)],
                          dataLastUpdated = Some now, version = DEFAULT_VERSION\<rparr>\<rparr>)
            else (False, st))"
proof -
  have "\<forall>h\<in>set ((getHabits now st)[i := updatedHabitOf now target (getHabits now st ! i)]).
          isValid (validateHabit h)"
  proof
    fix h assume "h \<in> set ((getHabits now st)[i := updatedHabitOf now target (getHabits now st ! i)])"
    then have "h = updatedHabitOf now target (getHabits now st ! i) \<or> h \<in> set (getHabits now st)"
      using set_update_subset_insert by fastforce
    moreover from findIndex_Some [OF assms] have "getHabits now st ! i \<in> set (getHabits now st)"
      by simp
    ultimately show "isValid (validateHabit h)"
      using getHabits_valid updatedHabitOf_valid by blast
  qed
  with assms show ?thesis
    by (simp add: updateHabitCompletion_def Let_def saveHabits_cases)
qed

lemma updateHabitCompletion_not_found:
  assumes "findIndex (\<lambda>h. habit_id h = hid) (getHabits now st) = None"
  shows "updateHabitCompletion now hid target st = (False, st)"
  using assms by (simp add: updateHabitCompletion_def Let_def)

lemma getHabits_after_write:
  "\<forall>h\<in>set hs. isValid (validateHabit h) \<Longrightarrow>
   getHabits now' (st\<lparr>habitsItem := Some \<lparr>habits = hs, dataLastUpdated = Some now,
                                          version = DEFAULT_VERSION\<rparr>\<rparr>) = hs"
  by (simp add: getHabits_cases envelope_valid)


lemma updated_list_valid:
  assumes "findIndex (\<lambda>h. habit_id h = hid) (getHabits now st) = Some i"
  shows "\<forall>h\<in>set ((getHabits now st)[i := updatedHabitOf now target (getHabits now st ! i)]).
          isValid (validateHabit h)"
proof
  fix h assume "h \<in> set ((getHabits now st)[i := updatedHabitOf now target (getHabits now st ! i)])"
  then have "h = updatedHabitOf now target (getHabits now st ! i) \<or> h \<in> set (getHabits now st)"
    using set_update_subset_insert by fastforce
  moreover from findIndex_Some [OF assms] have "getHabits now st ! i \<in> set (getHabits now st)"
    by simp
  ultimately show "isValid (validateHabit h)"
    using getHabits_valid updatedHabitOf_valid by blast
qed

lemma updateHabitCompletion_after:
  assumes f: "findIndex (\<lambda>h. habit_id h = hid) (getHabits now st) = Some i"
    and w: "writable st"
  shows "\<exists>st'. updateHabitCompletion now hid target st = (True, st') \<and> writable st'
           \<and> getHabits now' st' = (getHabits now st)[i := updatedHabitOf now target (getHabits now st ! i)]"
proof -
  let ?new = "(getHabits now st)[i := updatedHabitOf now target (getHabits now st ! i)]"
  have "getHabits now' (st\<lparr>habitsItem := Some \<lparr>habits = ?new, dataLastUpdated = Some now,
                                                 version = DEFAULT_VERSION\<rparr>\<rparr>) = ?new"
    by (rule getHabits_after_write) (rule updated_list_valid [OF f])
  with updateHabitCompletion_found [OF f, of target] w show ?thesis by simp
qed


text \<open>
  C10: when \<open>updateHabitCompletion(id, target)\<close> succeeds, the persisted collection
  has the length and the order of ids it had; every habit whose id differs from the given
  one is the habit stored before; every habit keeps its \<open>id\<close>, \<open>name\<close>,
  \<open>frequency\<close>, \<open>targetTime\<close> and \<open>createdAt\<close>; and the collection
  differs from the old one at one habit with the given id, in \<open>isCompleted\<close>,
  \<open>completedDays\<close>, \<open>totalDays\<close>, \<open>completionHistory\<close> and
  \<open>lastUpdated\<close> only.
\<close>

theorem C10_updateHabitCompletion_frame:
  assumes "updateHabitCompletion now hid target st = (True, st')"
  shows "\<exists>old new. habitsItem st = Some old \<and> habitsItem st' = Some new
           \<and> length (habits new) = length (habits old)
           \<and> map habit_id (habits new) = map habit_id (habits old)
           \<and> (\<forall>j<length (habits old). habit_id (habits old ! j) \<noteq> hid \<longrightarrow> habits new ! j = habits old ! j)
           \<and> (\<forall>j<length (habits old).
                 habit_id (habits new ! j) = habit_id (habits old ! j)
               \<and> name (habits new ! j) = name (habits old ! j)
               \<and> frequency (habits new ! j) = frequency (habits old ! j)
               \<and> targetTime (habits new ! j) = targetTime (habits old ! j)
               \<and> createdAt (habits new ! j) = createdAt (habits old ! j))
           \<and> (\<exists>i c t hist. i < length (habits old) \<and> habit_id (habits old ! i) = hid
                 \<and> habits new = (habits old)[i := (habits old ! i)
                      \<lparr>isCompleted := target, completedDays := c, totalDays := t,
                       completionHistory := hist, lastUpdated := Some now\<rparr>])"
proof -
  let ?hs = "getHabits now st"
  from assms obtain i where f: "findIndex (\<lambda>h. habit_id h = hid) ?hs = Some i"
    using updateHabitCompletion_not_found [of hid now st target]
    by (cases "findIndex (\<lambda>h. habit_id h = hid) ?hs") auto
  let ?u = "updatedHabitOf now target (?hs ! i)"
  from findIndex_Some [OF f] have i: "i < length ?hs" and idh: "habit_id (?hs ! i) = hid"
    by auto
  from i obtain old where old: "habitsItem st = Some old" "habits old = ?hs"
    by (auto simp: getHabits_cases split: option.splits if_splits)
  from assms updateHabitCompletion_found [OF f, of target]
  have new: "habitsItem st' = Some \<lparr>habits = ?hs[i := ?u], dataLastUpdated = Some now, version = DEFAULT_VERSION\<rparr>"
    by (auto split: if_splits)
  have others: "\<forall>j<length ?hs. habit_id (?hs ! j) \<noteq> hid \<longrightarrow> ?hs[i := ?u] ! j = ?hs ! j"
    using idh i by (auto simp: nth_list_update)
  have kept: "\<forall>j<length ?hs.
                 habit_id (?hs[i := ?u] ! j) = habit_id (?hs ! j)
               \<and> name (?hs[i := ?u] ! j) = name (?hs ! j)
               \<and> frequency (?hs[i := ?u] ! j) = frequency (?hs ! j)
               \<and> targetTime (?hs[i := ?u] ! j) = targetTime (?hs ! j)
               \<and> createdAt (?hs[i := ?u] ! j) = createdAt (?hs ! j)"
    using i by (auto simp: nth_list_update updatedHabitOf_fields)
  have ids: "map habit_id (?hs[i := ?u]) = map habit_id ?hs"
    using i by (simp add: map_update updatedHabitOf_fields list_update_same_conv)
  have shape: "\<exists>c t hist. ?u = (?hs ! i)\<lparr>isCompleted := target, completedDays := c, totalDays := t,
                       completionHistory := hist, lastUpdated := Some now\<rparr>"
    unfolding updatedHabitOf_def Let_def by blast
  then obtain c t hist where u: "?u = (?hs ! i)\<lparr>isCompleted := target, completedDays := c, totalDays := t,
                       completionHistory := hist, lastUpdated := Some now\<rparr>"
    by blast
  have last: "\<exists>k c t hist. k < length ?hs \<and> habit_id (?hs ! k) = hid
                 \<and> ?hs[i := ?u] = ?hs[k := (?hs ! k)
                      \<lparr>isCompleted := target, completedDays := c, totalDays := t,
                       completionHistory := hist, lastUpdated := Some now\<rparr>]"
    using i idh u by metis
  show ?thesis
    apply (rule exI [of _ old])
    apply (rule exI [of _ "\<lparr>habits = ?hs[i := ?u], dataLastUpdated = Some now, version = DEFAULT_VERSION\<rparr>"])
    using old new others kept ids last by simp
qed


lemma exampleStorage_habits: "getHabits now exampleStorage = [exampleHabit]"
  by (simp add: getHabits_cases exampleStorage_def validateStoredData_iff validateHabit_iff
        exampleHabit_def trim_def isWhiteSpace_def)





theorem C10_updateHabitCompletion_frame_witness:
  "\<exists>old new. habitsItem exampleStorage = Some old
      \<and> habitsItem (snd (updateHabitCompletion 864000000 ''test-habit-1'' True exampleStorage)) = Some new
      \<and> length (habits new) = length (habits old)
      \<and> map habit_id (habits new) = map habit_id (habits old)
      \<and> name (habits new ! 0) = name (habits old ! 0)"
proof -
  have f: "findIndex (\<lambda>h. habit_id h = ''test-habit-1'') (getHabits 864000000 exampleStorage) = Some 0"
    by (simp add: exampleStorage_habits) (simp add: exampleHabit_def)
  have w: "writable exampleStorage" by (simp add: exampleStorage_def)
  from updateHabitCompletion_after [OF f w, of True 0]
  have ok: "updateHabitCompletion 864000000 ''test-habit-1'' True exampleStorage
          = (True, snd (updateHabitCompletion 864000000 ''test-habit-1'' True exampleStorage))"
    by auto
  from C10_updateHabitCompletion_frame [OF ok]
  obtain old new where on: "habitsItem exampleStorage = Some old"
    "habitsItem (snd (updateHabitCompletion 864000000 ''test-habit-1'' True exampleStorage)) = Some new"
    "length (habits new) = length (habits old)"
    "map habit_id (habits new) = map habit_id (habits old)"
    and kept: "\<forall>j<length (habits old). habit_id (habits new ! j) = habit_id (habits old ! j)
               \<and> name (habits new ! j) = name (habits old ! j)
               \<and> frequency (habits new ! j) = frequency (habits old ! j)
               \<and> targetTime (habits new ! j) = targetTime (habits old ! j)
               \<and> createdAt (habits new ! j) = createdAt (habits old ! j)"
    by blast
  from on(1) have "length (habits old) = 1"
    by (auto simp: exampleStorage_def)
  with kept have "name (habits new ! 0) = name (habits old ! 0)" by simp
  with on show ?thesis by blast
qed


section \<open>Properties of the recalculation\<close>













section \<open>Properties of the achievement evaluator\<close>

lemma checkStep_fold:
  "fold (checkStep us cur) as (new, unlocked) =
     (new @ filter (\<lambda>a. condition a us \<and> ach_id a \<notin> set cur) as,
      unlocked @ map ach_id (filter (\<lambda>a. condition a us) as))"
  by (induction as arbitrary: new unlocked) (simp_all add: checkStep_def)

lemma checkAchievements_eq:
  "checkAchievements hs cur =
     \<lparr>newAchievements = filter (\<lambda>a. condition a (calculateUserStats hs) \<and> ach_id a \<notin> set cur) ACHIEVEMENTS,
      allUnlocked = map ach_id (filter (\<lambda>a. condition a (calculateUserStats hs)) ACHIEVEMENTS),
      checkedStats = calculateUserStats hs\<rparr>"
  by (simp add: checkAchievements_def Let_def checkStep_fold)

text \<open>
  C7: for every habit list, checking again with what the first check found unlocked
  reports no new achievement, whatever was unlocked before the first check; the set found
  unlocked does not depend on what was unlocked before; from nothing unlocked, the new
  achievements are exactly the unlocked ones; and the statistics reported are those of
  the habit list alone. \<open>checkAchievements\<close> reads no clock and no store, so it is
  a function of its two arguments.
\<close>

theorem C7_checkAchievements_idempotent:
  "newAchievements (checkAchievements hs (allUnlocked (checkAchievements hs []))) = []
   \<and> newAchievements (checkAchievements hs (allUnlocked (checkAchievements hs cur))) = []
   \<and> allUnlocked (checkAchievements hs (allUnlocked (checkAchievements hs cur)))
        = allUnlocked (checkAchievements hs cur)
   \<and> map ach_id (newAchievements (checkAchievements hs []))
        = allUnlocked (checkAchievements hs [])
   \<and> checkedStats (checkAchievements hs cur) = calculateUserStats hs"
  by (auto simp: checkAchievements_eq filter_empty_conv)

theorem C7_checkAchievements_idempotent_witness:
  "newAchievements (checkAchievements [exampleHabit] (allUnlocked (checkAchievements [exampleHabit] []))) = []
   \<and> allUnlocked (checkAchievements [exampleHabit] []) = [''first_steps'']"
proof -
  have "allUnlocked (checkAchievements [exampleHabit] []) = [''first_steps'']"
    by code_simp
  with C7_checkAchievements_idempotent [of "[exampleHabit]" "[]"] show ?thesis by simp
qed


section \<open>Properties of the integrity repair\<close>

lemma plainHabit_required: "i \<noteq> [] \<Longrightarrow> requiredFieldIssues n (plainHabit i) = []"
  by (simp add: requiredFieldIssues_def plainHabit_def trim_def isWhiteSpace_def)

lemma plainHabit_consistency: "consistencyIssues n (plainHabit i) = []"
  by (simp add: consistencyIssues_def plainHabit_def)

text \<open>
  Example 4: ids \<open>["a", "a", "b"]\<close> give one \<open>duplicate_ids\<close> issue of
  severity \<open>high\<close> listing \<open>["a"]\<close>, and the repair regenerates the id of
  the second habit only.
\<close>

lemma example4_validate:
  "issues (validateDataIntegrity [plainHabit ''a'', plainHabit ''a'', plainHabit ''b''])
     = [\<lparr>issueType = ''duplicate_ids'', severity = ''high'', issueData = IdList [''a'']\<rparr>]"
  by (simp add: validateDataIntegrity_def Let_def duplicateIdsOf_def plainHabit_required
        plainHabit_consistency) (simp add: plainHabit_def)

lemma example4_repair:
  "fixDataIntegrity gen [plainHabit ''a'', plainHabit ''a'', plainHabit ''b'']
     (issues (validateDataIntegrity [plainHabit ''a'', plainHabit ''a'', plainHabit ''b'']))
     = [plainHabit ''a'', (plainHabit ''a'')\<lparr>habit_id := gen 0\<rparr>, plainHabit ''b'']"
  unfolding example4_validate
  by (simp add: fixDataIntegrity_def) (simp add: plainHabit_def)

text \<open>
  C8 fails on the ids \<open>["b", "a", "a"]\<close>: validation reports the one
  \<open>duplicate_ids\<close> issue listing \<open>["a"]\<close>, and the repair regenerates the ids
  of both habits \<open>a\<close>, the first occurrence of the group included. The guard
  \<open>index > 0\<close> of the repair spares the habit at index 0 of the collection, not the
  first occurrence of each duplicate group.
\<close>

theorem C8_first_occurrence_regenerated:
  "issues (validateDataIntegrity [plainHabit ''b'', plainHabit ''a'', plainHabit ''a''])
     = [\<lparr>issueType = ''duplicate_ids'', severity = ''high'', issueData = IdList [''a'']\<rparr>]
   \<and> fixDataIntegrity gen [plainHabit ''b'', plainHabit ''a'', plainHabit ''a'']
        (issues (validateDataIntegrity [plainHabit ''b'', plainHabit ''a'', plainHabit ''a'']))
     = [plainHabit ''b'', (plainHabit ''a'')\<lparr>habit_id := gen 0\<rparr>,
        (plainHabit ''a'')\<lparr>habit_id := gen 1\<rparr>]"
proof -
  have v: "issues (validateDataIntegrity [plainHabit ''b'', plainHabit ''a'', plainHabit ''a''])
     = [\<lparr>issueType = ''duplicate_ids'', severity = ''high'', issueData = IdList [''a'']\<rparr>]"
    by (simp add: validateDataIntegrity_def Let_def duplicateIdsOf_def plainHabit_required
        plainHabit_consistency) (simp add: plainHabit_def)
  have "fixDataIntegrity gen [plainHabit ''b'', plainHabit ''a'', plainHabit ''a'']
          [\<lparr>issueType = ''duplicate_ids'', severity = ''high'', issueData = IdList [''a'']\<rparr>]
     = [plainHabit ''b'', (plainHabit ''a'')\<lparr>habit_id := gen 0\<rparr>,
        (plainHabit ''a'')\<lparr>habit_id := gen 1\<rparr>]"
    by (simp add: fixDataIntegrity_def) (simp add: plainHabit_def)
  with v show ?thesis by simp
qed


end
